theory Spec2Isabelle
  imports Main "HOL-Library.Word" "HOL-Library.Sublist"
begin

section \<open>The conversation client of the fashion chatbot\<close>

text \<open>
  A shallow embedding of the chat client: the API wrapper \<^verbatim>\<open>chatApi\<close> (utils/api.ts)
  and the two asynchronous operations of the \<^verbatim>\<open>App\<close> component (App.tsx),
  \<^verbatim>\<open>checkConnection\<close> and \<^verbatim>\<open>handleSendMessage\<close>. The component's four
  \<^verbatim>\<open>useState\<close> cells are the fields of one record; each operation takes the state and
  returns the updated one. An asynchronous operation is cut at its \<^verbatim>\<open>await\<close>: the
  part before it runs when the event arrives, the part after it runs when the promise
  settles, on whatever the state is by then.
\<close>

subsection \<open>Strings\<close>

text \<open>
  A JavaScript string is a sequence of 16-bit code units. \<open>lit\<close> turns an ASCII literal
  of the source into its code units.
\<close>

type_synonym js_string = "16 word list"

definition lit :: "string \<Rightarrow> js_string" where
  "lit s = map (\<lambda>c. of_char c) s"

text \<open>
  \<^verbatim>\<open>String.prototype.trim\<close> removes white space and line terminators from both ends:
  TAB, LF, VT, FF, CR, SP, NBSP, the other space separators of Unicode, LS, PS and the
  byte order mark.
\<close>

definition isWhiteSpace :: "16 word \<Rightarrow> bool" where
  "isWhiteSpace u \<longleftrightarrow>
     u \<in> set [0x0009, 0x000A, 0x000B, 0x000C, 0x000D, 0x0020, 0x00A0, 0x1680,
              0x2000, 0x2001, 0x2002, 0x2003, 0x2004, 0x2005, 0x2006, 0x2007,
              0x2008, 0x2009, 0x200A, 0x2028, 0x2029, 0x202F, 0x205F, 0x3000, 0xFEFF]"

definition trim :: "js_string \<Rightarrow> js_string" where
  "trim s = rev (dropWhile isWhiteSpace (rev (dropWhile isWhiteSpace s)))"

text \<open>\<^verbatim>\<open>s.startsWith(p)\<close>: the first \<open>length p\<close> code units of \<open>s\<close> are \<open>p\<close>.\<close>

definition startsWith :: "js_string \<Rightarrow> js_string \<Rightarrow> bool" where
  "startsWith s p \<longleftrightarrow> take (length p) s = p"

text \<open>
  \<^verbatim>\<open>Date.now().toString()\<close> and the template literals print a number of milliseconds
  in decimal.
\<close>

function toString :: "nat \<Rightarrow> js_string" where
  "toString n =
     (if n < 10 then [of_nat (48 + n)]
      else toString (n div 10) @ [of_nat (48 + n mod 10)])"
  by pat_completeness auto
termination
  by (relation "measure id") auto

declare toString.simps [simp del]

subsection \<open>Data model\<close>

datatype Role = User | Assistant

text \<open>\<^verbatim>\<open>interface Message\<close> of utils/api.ts.\<close>

record Message =
  role :: Role
  content :: js_string

text \<open>
  \<^verbatim>\<open>type ChatMessage = Message & { id: string; timestamp: Date }\<close>; the field \<^verbatim>\<open>id\<close>
  is \<open>msg_id\<close> here, and a \<^verbatim>\<open>Date\<close> is its number of milliseconds.
\<close>

record ChatMessage = Message +
  msg_id :: js_string
  timestamp :: nat

record ChatRequest =
  message :: js_string
  conversation_history :: "Message list"

text \<open>
  \<^verbatim>\<open>interface ChatResponse\<close>; its optional \<^verbatim>\<open>metadata\<close> is never read by the client
  and is left out.
\<close>

record ChatResponse =
  response :: js_string

record HealthStatus =
  status :: js_string

text \<open>
  What a rejected axios promise carries: no answer at all, or an answer whose status is
  outside 2xx.
\<close>

datatype error = NetworkError | HttpError nat

text \<open>
  The two clock reads of one message construction: \<^verbatim>\<open>Date.now()\<close> for the identifier
  and \<^verbatim>\<open>new Date()\<close> for the timestamp.
\<close>

record Clock =
  Date_now :: nat
  new_Date :: nat

text \<open>The state cells of \<^verbatim>\<open>App\<close>, with their initial values.\<close>

record App =
  messages :: "ChatMessage list"
  input :: js_string
  isLoading :: bool
  isConnected :: bool

definition App_init :: App where
  "App_init = \<lparr>messages = [], input = [], isLoading = False, isConnected = False\<rparr>"

subsection \<open>The API wrapper\<close>

text \<open>
  \<^verbatim>\<open>chatApi.sendMessage\<close> posts \<^verbatim>\<open>{message, conversation_history}\<close> to \<^verbatim>\<open>/chat\<close>
  and returns the body of the answer; a failure is logged and thrown again. \<open>post\<close> is the
  transport together with the Chat Service: what the request is answered with.
\<close>

definition chatApi_sendMessage ::
  "(ChatRequest \<Rightarrow> error + ChatResponse) \<Rightarrow> js_string \<Rightarrow> Message list \<Rightarrow> error + ChatResponse"
where
  "chatApi_sendMessage post msg conversationHistory =
     (case post \<lparr>message = msg, conversation_history = conversationHistory\<rparr> of
        Inr data \<Rightarrow> Inr data
      | Inl e \<Rightarrow> Inl e)"

text \<open>\<^verbatim>\<open>chatApi.getHealth\<close>; \<open>get\<close> is what \<^verbatim>\<open>GET /health\<close> is answered with.\<close>

definition chatApi_getHealth :: "error + HealthStatus \<Rightarrow> error + HealthStatus" where
  "chatApi_getHealth get =
     (case get of
        Inr data \<Rightarrow> Inr data
      | Inl e \<Rightarrow> Inl e)"

subsection \<open>checkConnection\<close>

definition welcomeMessage :: "Clock \<Rightarrow> ChatMessage" where
  "welcomeMessage c =
     \<lparr>role = Assistant,
      content = lit ''Hello! I'm your fashion assistant. How can I help you with your style today?'',
      msg_id = lit ''welcome'',
      timestamp = new_Date c\<rparr>"

definition connectionErrorMessage :: "Clock \<Rightarrow> ChatMessage" where
  "connectionErrorMessage c =
     \<lparr>role = Assistant,
      content = lit ''I'm having trouble connecting to the fashion assistant service. Some features may be limited.'',
      msg_id = lit ''error'',
      timestamp = new_Date c\<rparr>"

text \<open>
  The mount effect. Nothing is written before the probe settles; when it does, the success
  path sets \<^verbatim>\<open>isConnected\<close> and stores the one-element array, the \<^verbatim>\<open>catch\<close> path stores
  the other one-element array and leaves \<^verbatim>\<open>isConnected\<close> alone. Both arrays are stored
  with \<^verbatim>\<open>setMessages([...])\<close>, a plain value. \<open>s\<close> is the state when the probe settles.
\<close>

definition checkConnection :: "error + HealthStatus \<Rightarrow> Clock \<Rightarrow> App \<Rightarrow> App" where
  "checkConnection get c s =
     (case chatApi_getHealth get of
        Inr _ \<Rightarrow> s\<lparr>isConnected := True, messages := [welcomeMessage c]\<rparr>
      | Inl e \<Rightarrow> s\<lparr>messages := [connectionErrorMessage c]\<rparr>)"

subsection \<open>handleSendMessage\<close>

definition userMessage :: "js_string \<Rightarrow> Clock \<Rightarrow> ChatMessage" where
  "userMessage inp c =
     \<lparr>role = User, content = inp, msg_id = toString (Date_now c), timestamp = new_Date c\<rparr>"

definition botMessage :: "ChatResponse \<Rightarrow> Clock \<Rightarrow> ChatMessage" where
  "botMessage r c =
     \<lparr>role = Assistant, content = response r,
      msg_id = lit ''msg-'' @ toString (Date_now c), timestamp = new_Date c\<rparr>"

definition errorMessage :: "Clock \<Rightarrow> ChatMessage" where
  "errorMessage c =
     \<lparr>role = Assistant,
      content = lit ''Sorry, I encountered an error while processing your request. Please try again.'',
      msg_id = lit ''error-'' @ toString (Date_now c), timestamp = new_Date c\<rparr>"

text \<open>
  The history sent along: \<^verbatim>\<open>.filter(msg => msg.role !== 'assistant' ||
  !msg.content.startsWith('I\'m having trouble'))\<close>, then
  \<^verbatim>\<open>.map(({ role, content }) => ({ role, content }))\<close>.
\<close>

definition keepInHistory :: "ChatMessage \<Rightarrow> bool" where
  "keepInHistory msg \<longleftrightarrow>
     role msg \<noteq> Assistant \<or> \<not> startsWith (content msg) (lit ''I'm having trouble'')"

definition toMessage :: "ChatMessage \<Rightarrow> Message" where
  "toMessage m = \<lparr>role = role m, content = content m\<rparr>"

definition conversationHistory :: "ChatMessage list \<Rightarrow> Message list" where
  "conversationHistory msgs = map toMessage (filter keepInHistory msgs)"

text \<open>
  The handler up to its \<^verbatim>\<open>await\<close>. \<open>s\<close> holds the values the handler's closure sees:
  \<^verbatim>\<open>input\<close>, \<^verbatim>\<open>isLoading\<close> and \<^verbatim>\<open>messages\<close> of the render it belongs to. The guard
  returns at once (an empty string is falsy). Otherwise the user message is appended
  with the updater \<^verbatim>\<open>prev => [...prev, userMessage]\<close>, the input is cleared, the flag is
  set, and \<^verbatim>\<open>chatApi.sendMessage(input, conversationHistory)\<close> is called with the
  closure's \<^verbatim>\<open>input\<close> and with the history computed from the closure's \<^verbatim>\<open>messages\<close>.
  The second component is the pair of arguments of that call, \<open>None\<close> when the guard
  returned.
\<close>

definition handleSendMessage_submit ::
  "Clock \<Rightarrow> App \<Rightarrow> App \<times> (js_string \<times> Message list) option" where
  "handleSendMessage_submit c s =
     (if trim (input s) = [] \<or> isLoading s then (s, None)
      else
        (s\<lparr>messages := messages s @ [userMessage (input s) c], input := [], isLoading := True\<rparr>,
         Some (input s, conversationHistory (messages s))))"

text \<open>
  The handler from the point where the awaited call settles: the rest of the \<^verbatim>\<open>try\<close>
  block or the \<^verbatim>\<open>catch\<close> block, then \<^verbatim>\<open>finally\<close>. Both appends are updaters
  (\<^verbatim>\<open>prev => [...prev, m]\<close>), applied to the transcript as it is then. The first
  component is the exception that leaves the handler, \<open>None\<close> when there is none: the
  \<^verbatim>\<open>catch\<close> block takes every error and throws nothing.
\<close>

definition handleSendMessage_settle ::
  "error + ChatResponse \<Rightarrow> Clock \<Rightarrow> App \<Rightarrow> error option \<times> App" where
  "handleSendMessage_settle awaited c s =
     (let (thrown, s') =
        (case awaited of
           Inr r \<Rightarrow> (None, s\<lparr>messages := messages s @ [botMessage r c]\<rparr>)
         | Inl e \<Rightarrow> (None, s\<lparr>messages := messages s @ [errorMessage c]\<rparr>))
      in (thrown, s'\<lparr>isLoading := False\<rparr>))"

text \<open>
  One whole call with nothing else happening in between: what the promise of the handler
  ends with, the state it leaves, and the request that reached \<open>post\<close>, if any.
\<close>

record SendResult =
  thrown :: "error option"
  final :: App
  request :: "ChatRequest option"

definition handleSendMessage ::
  "(ChatRequest \<Rightarrow> error + ChatResponse) \<Rightarrow> Clock \<Rightarrow> Clock \<Rightarrow> App \<Rightarrow> SendResult" where
  "handleSendMessage post c c' s =
     (case handleSendMessage_submit c s of
        (s1, None) \<Rightarrow> \<lparr>thrown = None, final = s1, request = None\<rparr>
      | (s1, Some (msg, hist)) \<Rightarrow>
          (let (t, s2) = handleSendMessage_settle (chatApi_sendMessage post msg hist) c' s1
           in \<lparr>thrown = t, final = s2,
               request = Some \<lparr>message = msg, conversation_history = hist\<rparr>\<rparr>))"

subsection \<open>Events\<close>

text \<open>
  What the event loop delivers to the component, one at a time: the health probe of the
  mount effect settles; the input field changes (\<^verbatim>\<open>onChange\<close> stores the new value);
  the form is submitted; the awaited chat call settles.
\<close>

datatype event =
  HealthSettled "error + HealthStatus" Clock
| InputChanged js_string
| Submitted Clock
| ChatSettled "error + ChatResponse" Clock

fun step :: "App \<Rightarrow> event \<Rightarrow> App" where
  "step s (HealthSettled get c) = checkConnection get c s"
| "step s (InputChanged v) = s\<lparr>input := v\<rparr>"
| "step s (Submitted c) = fst (handleSendMessage_submit c s)"
| "step s (ChatSettled awaited c) = snd (handleSendMessage_settle awaited c s)"

definition run :: "App \<Rightarrow> event list \<Rightarrow> App" where
  "run s evs = foldl step s evs"

subsection \<open>Scenarios\<close>

text \<open>Concrete clocks, states and services, on which the theorems below are run.\<close>

definition clock0 :: Clock where
  "clock0 = \<lparr>Date_now = 1000, new_Date = 1001\<rparr>"

definition clock1 :: Clock where
  "clock1 = \<lparr>Date_now = 2000, new_Date = 2001\<rparr>"

definition clock2 :: Clock where
  "clock2 = \<lparr>Date_now = 3000, new_Date = 3001\<rparr>"

definition clock3 :: Clock where
  "clock3 = \<lparr>Date_now = 4000, new_Date = 4001\<rparr>"

text \<open>
  After a successful probe the user has typed a question; the service will answer
  \<^verbatim>\<open>{response: "Try grey or white."}\<close>.
\<close>

definition navy_state :: App where
  "navy_state =
     \<lparr>messages = [welcomeMessage clock0], input = lit ''What goes with navy blue?'',
      isLoading = False, isConnected = True\<rparr>"

definition navy_service :: "ChatRequest \<Rightarrow> error + ChatResponse" where
  "navy_service req = Inr \<lparr>response = lit ''Try grey or white.''\<rparr>"

text \<open>
  Services whose answer shows what they were sent: one answers with the \<^verbatim>\<open>message\<close>
  field it received; one with the content of the last entry of the history it received,
  and refuses a request whose history is empty; one with the contents of the whole
  history it received, one after the other.
\<close>

definition echo_service :: "ChatRequest \<Rightarrow> error + ChatResponse" where
  "echo_service req = Inr \<lparr>response = message req\<rparr>"

definition last_heard_service :: "ChatRequest \<Rightarrow> error + ChatResponse" where
  "last_heard_service req =
     (case rev (conversation_history req) of
        [] \<Rightarrow> Inl (HttpError 422)
      | m # _ \<Rightarrow> Inr \<lparr>response = content m\<rparr>)"

definition recap_service :: "ChatRequest \<Rightarrow> error + ChatResponse" where
  "recap_service req = Inr \<lparr>response = concat (map content (conversation_history req))\<rparr>"

text \<open>A service that cannot be reached.\<close>

definition down_service :: "ChatRequest \<Rightarrow> error + ChatResponse" where
  "down_service req = Inl NetworkError"

text \<open>
  An earlier exchange in which the user's own words begin like the connectivity notice.
\<close>

definition trouble_state :: App where
  "trouble_state =
     \<lparr>messages = [welcomeMessage clock0,
                  userMessage (lit ''I'm having trouble picking shoes'') clock1,
                  botMessage \<lparr>response = lit ''Try loafers.''\<rparr> clock1],
      input = lit ''And a belt?'', isLoading = False, isConnected = True\<rparr>"

text \<open>
  The probe has failed and the user has typed a greeting.
\<close>

definition offline_state :: App where
  "offline_state =
     \<lparr>messages = [connectionErrorMessage clock0], input = lit ''hi'',
      isLoading = False, isConnected = False\<rparr>"

text \<open>
  Inputs made of spaces only, and padded with spaces.
\<close>

definition blank_state :: App where
  "blank_state =
     \<lparr>messages = [welcomeMessage clock0], input = lit ''   '',
      isLoading = False, isConnected = True\<rparr>"

definition padded_state :: App where
  "padded_state =
     \<lparr>messages = [welcomeMessage clock0], input = lit ''  hi  '',
      isLoading = False, isConnected = True\<rparr>"

text \<open>
  A slow health probe: the user types and submits before the probe settles, then the
  probe succeeds, then the chat call settles.
\<close>

definition health_ok :: "error + HealthStatus" where
  "health_ok = Inr \<lparr>status = lit ''healthy''\<rparr>"

definition early_send :: "event list" where
  "early_send = [InputChanged (lit ''hi''), Submitted clock0]"

definition late_probe :: "event list" where
  "late_probe = early_send @ [HealthSettled health_ok clock1]"

definition late_reply :: "event list" where
  "late_reply = late_probe @ [ChatSettled (Inr \<lparr>response = lit ''Hello there.''\<rparr>) clock2]"

text \<open>
  The same early send, but the chat call fails while the probe is still pending; the
  probe then succeeds and the user types the next message.
\<close>

definition failed_early :: "event list" where
  "failed_early = early_send @ [ChatSettled (Inl (HttpError 500)) clock1]"

definition probe_after_failure :: "event list" where
  "probe_after_failure =
     failed_early @ [HealthSettled health_ok clock2, InputChanged (lit ''hi again'')]"

section \<open>Properties\<close>

subsection \<open>Auxiliary facts\<close>

lemma trim_Nil_iff: "trim s = [] \<longleftrightarrow> (\<forall>u\<in>set s. isWhiteSpace u)"
proof (cases "dropWhile isWhiteSpace s")
  case Nil
  then have "\<forall>u\<in>set s. isWhiteSpace u"
    by (simp add: dropWhile_eq_Nil_conv)
  moreover from Nil have "trim s = []"
    by (simp only: trim_def rev.simps dropWhile.simps)
  ultimately show ?thesis by simp
next
  case (Cons x xs)
  then have "dropWhile isWhiteSpace s \<noteq> []" by simp
  then have "\<not> isWhiteSpace (hd (dropWhile isWhiteSpace s))"
    by (rule hd_dropWhile)
  with Cons have nx: "\<not> isWhiteSpace x" by simp
  have "x \<in> set (dropWhile isWhiteSpace s)" using Cons by simp
  then have "x \<in> set s" by (rule set_dropWhileD)
  with nx have r: "\<not> (\<forall>u\<in>set s. isWhiteSpace u)" by blast
  have "trim s \<noteq> []"
  proof
    assume "trim s = []"
    then have "\<forall>u\<in>set (x # xs). isWhiteSpace u"
      by (simp add: trim_def Cons dropWhile_eq_Nil_conv)
    with nx show False by simp
  qed
  with r show ?thesis by simp
qed

lemma submit_rejected:
  "trim (input s) = [] \<or> isLoading s \<Longrightarrow> handleSendMessage_submit c s = (s, None)"
  by (simp add: handleSendMessage_submit_def)

lemma submit_accepted:
  "trim (input s) \<noteq> [] \<Longrightarrow> \<not> isLoading s \<Longrightarrow>
   handleSendMessage_submit c s =
     (s\<lparr>messages := messages s @ [userMessage (input s) c], input := [], isLoading := True\<rparr>,
      Some (input s, conversationHistory (messages s)))"
  by (simp add: handleSendMessage_submit_def)

lemma settle_eq:
  "handleSendMessage_settle awaited c s =
     (None, s\<lparr>messages := messages s @ [case awaited of Inr r \<Rightarrow> botMessage r c | Inl e \<Rightarrow> errorMessage c],
              isLoading := False\<rparr>)"
  by (simp add: handleSendMessage_settle_def split: sum.splits)

lemma chatApi_sendMessage_eq:
  "chatApi_sendMessage post msg hist = post \<lparr>message = msg, conversation_history = hist\<rparr>"
  by (simp add: chatApi_sendMessage_def split: sum.splits)

lemma handleSendMessage_rejected:
  "trim (input s) = [] \<or> isLoading s \<Longrightarrow>
   handleSendMessage post c c' s = \<lparr>thrown = None, final = s, request = None\<rparr>"
  by (simp add: handleSendMessage_def submit_rejected)

lemma handleSendMessage_accepted:
  "trim (input s) \<noteq> [] \<Longrightarrow> \<not> isLoading s \<Longrightarrow>
   handleSendMessage post c c' s =
     \<lparr>thrown = None,
      final = s\<lparr>messages := messages s @ [userMessage (input s) c,
                 (case post \<lparr>message = input s, conversation_history = conversationHistory (messages s)\<rparr> of
                    Inr r \<Rightarrow> botMessage r c' | Inl e \<Rightarrow> errorMessage c')],
               input := [], isLoading := False\<rparr>,
      request = Some \<lparr>message = input s, conversation_history = conversationHistory (messages s)\<rparr>\<rparr>"
  by (simp add: handleSendMessage_def submit_accepted settle_eq chatApi_sendMessage_eq)

lemma keepInHistory_iff:
  "keepInHistory m \<longleftrightarrow> \<not> (role m = Assistant \<and> startsWith (content m) (lit ''I'm having trouble''))"
  by (auto simp: keepInHistory_def)

lemma keepInHistory_userMessage: "keepInHistory (userMessage inp c)"
  by (simp add: keepInHistory_def userMessage_def)

lemma keepInHistory_errorMessage: "keepInHistory (errorMessage c)"
  by (simp add: keepInHistory_def errorMessage_def startsWith_def lit_def)

lemma keepInHistory_welcomeMessage: "keepInHistory (welcomeMessage c)"
  by (simp add: keepInHistory_def welcomeMessage_def startsWith_def lit_def)

lemma not_keepInHistory_connectionErrorMessage: "\<not> keepInHistory (connectionErrorMessage c)"
  by (simp add: keepInHistory_def connectionErrorMessage_def startsWith_def lit_def)

lemma conversationHistory_append:
  "conversationHistory (xs @ ys) = conversationHistory xs @ conversationHistory ys"
  by (simp add: conversationHistory_def)

lemma conversationHistory_userMessage:
  "conversationHistory [userMessage inp c] = [\<lparr>role = User, content = inp\<rparr>]"
  by (simp add: conversationHistory_def keepInHistory_def toMessage_def userMessage_def)

lemma conversationHistory_Nil: "conversationHistory [] = []"
  by (simp add: conversationHistory_def)

lemma conversationHistory_Cons:
  "conversationHistory (m # ms) =
     (if keepInHistory m then toMessage m # conversationHistory ms else conversationHistory ms)"
  by (simp add: conversationHistory_def)

lemma toMessage_userMessage: "toMessage (userMessage inp c) = \<lparr>role = User, content = inp\<rparr>"
  by (simp add: toMessage_def userMessage_def)

lemma conversationHistory_filter_map:
  "conversationHistory msgs =
     filter (\<lambda>m. \<not> (role m = Assistant \<and> startsWith (content m) (lit ''I'm having trouble'')))
       (map toMessage msgs)"
  by (induction msgs) (auto simp: conversationHistory_def keepInHistory_def toMessage_def)

lemma trim_navy: "trim (input navy_state) \<noteq> []"
  by (simp add: navy_state_def trim_Nil_iff lit_def isWhiteSpace_def)

lemma trim_trouble: "trim (input trouble_state) \<noteq> []"
  by (simp add: trouble_state_def trim_Nil_iff lit_def isWhiteSpace_def)

lemma trim_offline: "trim (input offline_state) \<noteq> []"
  by (simp add: offline_state_def trim_Nil_iff lit_def isWhiteSpace_def)

lemma toMessage_botMessage: "toMessage (botMessage r c) = \<lparr>role = Assistant, content = response r\<rparr>"
  by (simp add: toMessage_def botMessage_def)

lemma keepInHistory_loafers: "keepInHistory (botMessage \<lparr>response = lit ''Try loafers.''\<rparr> c)"
  by (simp add: keepInHistory_def botMessage_def startsWith_def lit_def)

lemma checkConnection_ok:
  "checkConnection (Inr h) c s = s\<lparr>isConnected := True, messages := [welcomeMessage c]\<rparr>"
  by (simp add: checkConnection_def chatApi_getHealth_def)

lemma checkConnection_failed:
  "checkConnection (Inl e) c s = s\<lparr>messages := [connectionErrorMessage c]\<rparr>"
  by (simp add: checkConnection_def chatApi_getHealth_def)

lemma run_Nil: "run s [] = s"
  by (simp add: run_def)

lemma run_Cons: "run s (ev # evs) = run (step s ev) evs"
  by (simp add: run_def)

lemma step_prefix:
  assumes "\<forall>g k. ev \<noteq> HealthSettled g k"
  shows "prefix (messages s) (messages (step s ev))"
proof (cases ev)
  case (HealthSettled g k)
  with assms show ?thesis by simp
next
  case (InputChanged v)
  then show ?thesis by simp
next
  case (Submitted c)
  then show ?thesis by (simp add: handleSendMessage_submit_def)
next
  case (ChatSettled awaited c)
  then show ?thesis by (simp add: settle_eq)
qed

lemma step_isConnected:
  assumes "\<forall>g k. ev \<noteq> HealthSettled g k"
  shows "isConnected (step s ev) = isConnected s"
proof (cases ev)
  case (HealthSettled g k)
  with assms show ?thesis by simp
next
  case (InputChanged v)
  then show ?thesis by simp
next
  case (Submitted c)
  then show ?thesis by (simp add: handleSendMessage_submit_def)
next
  case (ChatSettled awaited c)
  then show ?thesis by (simp add: settle_eq)
qed

lemma run_prefix:
  "\<forall>g k. HealthSettled g k \<notin> set evs \<Longrightarrow> prefix (messages s) (messages (run s evs))"
proof (induction evs arbitrary: s)
  case Nil
  then show ?case by (simp add: run_Nil)
next
  case (Cons ev evs)
  from Cons.prems have "\<forall>g k. ev \<noteq> HealthSettled g k" by auto
  then have 1: "prefix (messages s) (messages (step s ev))" by (rule step_prefix)
  from Cons.prems have "\<forall>g k. HealthSettled g k \<notin> set evs" by auto
  then have "prefix (messages (step s ev)) (messages (run (step s ev) evs))" by (rule Cons.IH)
  with 1 show ?case by (simp add: run_Cons)
qed

lemma run_isConnected:
  "\<forall>g k. HealthSettled g k \<notin> set evs \<Longrightarrow> isConnected (run s evs) = isConnected s"
proof (induction evs arbitrary: s)
  case Nil
  then show ?case by (simp add: run_Nil)
next
  case (Cons ev evs)
  from Cons.prems have "\<forall>g k. ev \<noteq> HealthSettled g k" by auto
  then have 1: "isConnected (step s ev) = isConnected s" by (rule step_isConnected)
  from Cons.prems have "\<forall>g k. HealthSettled g k \<notin> set evs" by auto
  then have "isConnected (run (step s ev) evs) = isConnected (step s ev)" by (rule Cons.IH)
  with 1 show ?case by (simp add: run_Cons)
qed

lemma toMessage_errorMessage:
  "toMessage (errorMessage c) =
     \<lparr>role = Assistant,
      content = lit ''Sorry, I encountered an error while processing your request. Please try again.''\<rparr>"
  by (simp add: toMessage_def errorMessage_def)

lemma conversationHistory_mem:
  "m \<in> set msgs \<Longrightarrow> keepInHistory m \<Longrightarrow> toMessage m \<in> set (conversationHistory msgs)"
  by (simp add: conversationHistory_def)

lemma handleSendMessage_through_post:
  "trim (input s) \<noteq> [] \<Longrightarrow> \<not> isLoading s \<Longrightarrow>
   final (handleSendMessage post c c' s) =
     snd (handleSendMessage_settle
            (post \<lparr>message = input s, conversation_history = conversationHistory (messages s)\<rparr>)
            c' (fst (handleSendMessage_submit c s)))"
  by (simp add: handleSendMessage_accepted submit_accepted settle_eq)

subsection \<open>Sending a message\<close>

text \<open>
  C1. An accepted send (the trimmed input is not empty, no send is in flight) appends
  exactly one user message before the request and exactly one assistant message when the
  request settles: the text of the response on success, the fixed apology on failure.
  The second append is to whatever the transcript is when the request settles; with
  nothing in between, the transcript ends as the old one followed by the two messages,
  in that order.
\<close>

theorem sendMessage_appends_user_then_assistant:
  assumes "trim (input s) \<noteq> []" and "\<not> isLoading s"
  shows
   "messages (fst (handleSendMessage_submit c s)) = messages s @ [userMessage (input s) c]
    \<and> (\<forall>t. messages (snd (handleSendMessage_settle awaited c' t)) =
          messages t @ [case awaited of Inr r \<Rightarrow> botMessage r c' | Inl e \<Rightarrow> errorMessage c'])
    \<and> messages (final (handleSendMessage post c c' s)) =
        messages s @ [userMessage (input s) c,
          (case post \<lparr>message = input s, conversation_history = conversationHistory (messages s)\<rparr> of
             Inr r \<Rightarrow> botMessage r c' | Inl e \<Rightarrow> errorMessage c')]
    \<and> role (userMessage (input s) c) = User \<and> content (userMessage (input s) c) = input s
    \<and> (\<forall>r. role (botMessage r c') = Assistant \<and> content (botMessage r c') = response r)
    \<and> role (errorMessage c') = Assistant
    \<and> content (errorMessage c') =
        lit ''Sorry, I encountered an error while processing your request. Please try again.''"
proof -
  have 1: "messages (fst (handleSendMessage_submit c s)) = messages s @ [userMessage (input s) c]"
    using assms by (simp add: submit_accepted)
  have 2: "\<forall>t. messages (snd (handleSendMessage_settle awaited c' t)) =
          messages t @ [case awaited of Inr r \<Rightarrow> botMessage r c' | Inl e \<Rightarrow> errorMessage c']"
    by (simp add: settle_eq)
  have 3: "messages (final (handleSendMessage post c c' s)) =
        messages s @ [userMessage (input s) c,
          (case post \<lparr>message = input s, conversation_history = conversationHistory (messages s)\<rparr> of
             Inr r \<Rightarrow> botMessage r c' | Inl e \<Rightarrow> errorMessage c')]"
    using assms by (simp add: handleSendMessage_accepted)
  have 4: "role (userMessage (input s) c) = User \<and> content (userMessage (input s) c) = input s"
    by (simp add: userMessage_def)
  have 5: "\<forall>r. role (botMessage r c') = Assistant \<and> content (botMessage r c') = response r"
    by (simp add: botMessage_def)
  have 6: "role (errorMessage c') = Assistant
    \<and> content (errorMessage c') =
        lit ''Sorry, I encountered an error while processing your request. Please try again.''"
    by (simp add: errorMessage_def)
  from 1 2 3 4 5 6 show ?thesis by blast
qed

theorem sendMessage_appends_user_then_assistant_witness:
  "trim (input navy_state) \<noteq> [] \<and> \<not> isLoading navy_state \<and>
   messages (final (handleSendMessage navy_service clock1 clock2 navy_state)) =
     [welcomeMessage clock0,
      userMessage (lit ''What goes with navy blue?'') clock1,
      botMessage \<lparr>response = lit ''Try grey or white.''\<rparr> clock2]"
proof -
  have h1: "trim (input navy_state) \<noteq> []"
    by (simp add: navy_state_def trim_Nil_iff lit_def isWhiteSpace_def)
  have h2: "\<not> isLoading navy_state"
    by (simp add: navy_state_def)
  from sendMessage_appends_user_then_assistant [OF h1 h2, of clock1 "Inl NetworkError" clock2 navy_service]
  have "messages (final (handleSendMessage navy_service clock1 clock2 navy_state)) =
     messages navy_state @ [userMessage (input navy_state) clock1,
       (case navy_service \<lparr>message = input navy_state,
                conversation_history = conversationHistory (messages navy_state)\<rparr> of
          Inr r \<Rightarrow> botMessage r clock2 | Inl e \<Rightarrow> errorMessage clock2)]"
    by blast
  then show ?thesis
    using h1 h2 by (simp add: navy_state_def navy_service_def)
qed

text \<open>
  C10. For an accepted send, the content of the appended user message and the
  \<^verbatim>\<open>message\<close> field of the request are the input as typed, leading and trailing white
  space included: \<^verbatim>\<open>trim\<close> is applied in the guard only. The request is the one the
  API wrapper hands to the transport: the call ends as its continuation does on the
  answer that \<open>post\<close> gives to exactly that request.
\<close>

theorem send_keeps_raw_input:
  assumes "trim (input s) \<noteq> []" and "\<not> isLoading s"
  shows
   "messages (fst (handleSendMessage_submit c s)) = messages s @ [userMessage (input s) c]
    \<and> content (userMessage (input s) c) = input s
    \<and> snd (handleSendMessage_submit c s) = Some (input s, conversationHistory (messages s))
    \<and> map_option message (request (handleSendMessage post c c' s)) = Some (input s)
    \<and> chatApi_sendMessage post (input s) (conversationHistory (messages s)) =
        post \<lparr>message = input s, conversation_history = conversationHistory (messages s)\<rparr>
    \<and> final (handleSendMessage post c c' s) =
        snd (handleSendMessage_settle
               (post \<lparr>message = input s,
                      conversation_history = conversationHistory (messages s)\<rparr>)
               c' (fst (handleSendMessage_submit c s)))"
proof -
  have 1: "messages (fst (handleSendMessage_submit c s)) = messages s @ [userMessage (input s) c]
    \<and> content (userMessage (input s) c) = input s
    \<and> snd (handleSendMessage_submit c s) = Some (input s, conversationHistory (messages s))
    \<and> map_option message (request (handleSendMessage post c c' s)) = Some (input s)"
    using assms
    by (simp add: submit_accepted handleSendMessage_accepted userMessage_def)
  have 2: "chatApi_sendMessage post (input s) (conversationHistory (messages s)) =
        post \<lparr>message = input s, conversation_history = conversationHistory (messages s)\<rparr>"
    by (rule chatApi_sendMessage_eq)
  have 3: "final (handleSendMessage post c c' s) =
        snd (handleSendMessage_settle
               (post \<lparr>message = input s,
                      conversation_history = conversationHistory (messages s)\<rparr>)
               c' (fst (handleSendMessage_submit c s)))"
    using assms by (rule handleSendMessage_through_post)
  from 1 2 3 show ?thesis by blast
qed

text \<open>
  The service that answers with the message it was sent receives the padded input, and
  its answer comes back with the padding.
\<close>

theorem send_keeps_raw_input_witness:
  "trim (input padded_state) = lit ''hi'' \<and> \<not> isLoading padded_state \<and>
   map_option message (request (handleSendMessage echo_service clock1 clock2 padded_state)) =
     Some (lit ''  hi  '') \<and>
   map content (messages (final (handleSendMessage echo_service clock1 clock2 padded_state))) =
     [content (welcomeMessage clock0), lit ''  hi  '', lit ''  hi  '']"
proof -
  have t: "trim (input padded_state) = lit ''hi''"
    by (simp add: padded_state_def trim_def lit_def isWhiteSpace_def)
  then have h1: "trim (input padded_state) \<noteq> []"
    by (simp add: lit_def)
  have h2: "\<not> isLoading padded_state"
    by (simp add: padded_state_def)
  note r = send_keeps_raw_input [OF h1 h2, of clock1 echo_service clock2]
  from r have 1: "map_option message (request (handleSendMessage echo_service clock1 clock2 padded_state)) =
     Some (input padded_state)"
    by blast
  from r have 2: "messages (fst (handleSendMessage_submit clock1 padded_state)) =
      messages padded_state @ [userMessage (input padded_state) clock1]"
    by blast
  from r have 3: "final (handleSendMessage echo_service clock1 clock2 padded_state) =
        snd (handleSendMessage_settle
               (echo_service \<lparr>message = input padded_state,
                      conversation_history = conversationHistory (messages padded_state)\<rparr>)
               clock2 (fst (handleSendMessage_submit clock1 padded_state)))"
    by blast
  have i: "input padded_state = lit ''  hi  ''" by (simp add: padded_state_def)
  have m: "messages padded_state = [welcomeMessage clock0]" by (simp add: padded_state_def)
  have 4: "map content (messages (final (handleSendMessage echo_service clock1 clock2 padded_state))) =
     [content (welcomeMessage clock0), lit ''  hi  '', lit ''  hi  '']"
    by (simp add: 3 settle_eq 2 i m echo_service_def userMessage_def botMessage_def)
  from t h2 1 4 show ?thesis
    by (simp add: i)
qed

text \<open>
  C4. A call with an empty or white-space-only input, or while a send is in flight, does
  nothing: the state is returned as it was, no request is issued, and the call leaves no
  trace on anything that happens later (it is dropped, not queued).
\<close>

theorem rejected_send_is_noop:
  assumes "(\<forall>u \<in> set (input s). isWhiteSpace u) \<or> isLoading s"
  shows
   "handleSendMessage_submit c s = (s, None)
    \<and> handleSendMessage post c c' s = \<lparr>thrown = None, final = s, request = None\<rparr>
    \<and> run s (Submitted c # evs) = run s evs"
proof -
  from assms have r: "trim (input s) = [] \<or> isLoading s"
    by (simp add: trim_Nil_iff)
  then have 1: "handleSendMessage_submit c s = (s, None)"
    by (rule submit_rejected)
  from r have 2: "handleSendMessage post c c' s = \<lparr>thrown = None, final = s, request = None\<rparr>"
    by (rule handleSendMessage_rejected)
  from 1 have 3: "run s (Submitted c # evs) = run s evs"
    by (simp add: run_def)
  from 1 2 3 show ?thesis by blast
qed

theorem rejected_send_is_noop_witness:
  "trim (input blank_state) = [] \<and>
   handleSendMessage navy_service clock1 clock2 blank_state =
     \<lparr>thrown = None, final = blank_state, request = None\<rparr> \<and>
   isLoading (fst (handleSendMessage_submit clock1 navy_state)) \<and>
   handleSendMessage_submit clock2 (fst (handleSendMessage_submit clock1 navy_state)) =
     (fst (handleSendMessage_submit clock1 navy_state), None)"
proof -
  have w: "\<forall>u \<in> set (input blank_state). isWhiteSpace u"
    by (simp add: blank_state_def lit_def isWhiteSpace_def)
  then have t: "trim (input blank_state) = []"
    by (simp add: trim_Nil_iff)
  have l: "isLoading (fst (handleSendMessage_submit clock1 navy_state))"
    using trim_navy by (simp add: handleSendMessage_submit_def navy_state_def)
  from w have h1: "(\<forall>u \<in> set (input blank_state). isWhiteSpace u) \<or> isLoading blank_state"
    by (rule disjI1)
  from l have h2: "(\<forall>u \<in> set (input (fst (handleSendMessage_submit clock1 navy_state))). isWhiteSpace u)
      \<or> isLoading (fst (handleSendMessage_submit clock1 navy_state))"
    by (rule disjI2)
  from rejected_send_is_noop [OF h1, of clock1 navy_service clock2 "[]"]
  have 1: "handleSendMessage navy_service clock1 clock2 blank_state =
     \<lparr>thrown = None, final = blank_state, request = None\<rparr>"
    by blast
  from rejected_send_is_noop [OF h2, of clock2 navy_service clock2 "[]"]
  have 2: "handleSendMessage_submit clock2 (fst (handleSendMessage_submit clock1 navy_state)) =
     (fst (handleSendMessage_submit clock1 navy_state), None)"
    by blast
  from t 1 l 2 show ?thesis by blast
qed

text \<open>
  C5. No failure of the chat call leaves the handler. Whatever the awaited call settles
  with, the continuation throws nothing and clears the in-flight flag; a failure is turned
  into the appended assistant-role apology. So an accepted send ends with nothing thrown
  and the flag false.
\<close>

theorem send_failure_is_absorbed:
  assumes "trim (input s) \<noteq> []" and "\<not> isLoading s"
  shows
   "thrown (handleSendMessage post c c' s) = None
    \<and> \<not> isLoading (final (handleSendMessage post c c' s))
    \<and> (\<forall>e. post \<lparr>message = input s, conversation_history = conversationHistory (messages s)\<rparr> = Inl e
          \<longrightarrow> messages (final (handleSendMessage post c c' s)) =
                messages s @ [userMessage (input s) c, errorMessage c'])
    \<and> role (errorMessage c') = Assistant
    \<and> (\<forall>awaited t. fst (handleSendMessage_settle awaited c' t) = None
          \<and> \<not> isLoading (snd (handleSendMessage_settle awaited c' t)))
    \<and> (\<forall>e t. messages (snd (handleSendMessage_settle (Inl e) c' t)) = messages t @ [errorMessage c'])"
proof -
  have 1: "thrown (handleSendMessage post c c' s) = None"
    using assms by (simp add: handleSendMessage_accepted)
  have 2: "\<not> isLoading (final (handleSendMessage post c c' s))"
    using assms by (simp add: handleSendMessage_accepted)
  have 3: "\<forall>e. post \<lparr>message = input s, conversation_history = conversationHistory (messages s)\<rparr> = Inl e
          \<longrightarrow> messages (final (handleSendMessage post c c' s)) =
                messages s @ [userMessage (input s) c, errorMessage c']"
    using assms by (simp add: handleSendMessage_accepted)
  have 4: "role (errorMessage c') = Assistant"
    by (simp add: errorMessage_def)
  have 5: "\<forall>awaited t. fst (handleSendMessage_settle awaited c' t) = None
          \<and> \<not> isLoading (snd (handleSendMessage_settle awaited c' t))"
    by (simp add: settle_eq)
  have 6: "\<forall>e t. messages (snd (handleSendMessage_settle (Inl e) c' t)) = messages t @ [errorMessage c']"
    by (simp add: settle_eq)
  from 1 2 3 4 5 6 show ?thesis by blast
qed

theorem send_failure_is_absorbed_witness:
  "trim (input navy_state) \<noteq> [] \<and> \<not> isLoading navy_state \<and>
   handleSendMessage down_service clock1 clock2 navy_state =
     \<lparr>thrown = None,
      final = \<lparr>messages = [welcomeMessage clock0,
                            userMessage (lit ''What goes with navy blue?'') clock1,
                            errorMessage clock2],
               input = [], isLoading = False, isConnected = True\<rparr>,
      request = Some \<lparr>message = lit ''What goes with navy blue?'',
                      conversation_history = [toMessage (welcomeMessage clock0)]\<rparr>\<rparr>"
proof -
  have a: "\<not> isLoading navy_state" by (simp add: navy_state_def)
  note t = send_failure_is_absorbed [OF trim_navy a, of down_service clock1 clock2]
  from t have 1: "thrown (handleSendMessage down_service clock1 clock2 navy_state) = None"
    by blast
  from t have 2: "\<not> isLoading (final (handleSendMessage down_service clock1 clock2 navy_state))"
    by blast
  have h: "conversationHistory [welcomeMessage clock0] = [toMessage (welcomeMessage clock0)]"
    by (simp add: conversationHistory_Cons conversationHistory_Nil keepInHistory_welcomeMessage)
  have "handleSendMessage down_service clock1 clock2 navy_state =
     \<lparr>thrown = thrown (handleSendMessage down_service clock1 clock2 navy_state),
      final = \<lparr>messages = [welcomeMessage clock0,
                            userMessage (lit ''What goes with navy blue?'') clock1,
                            errorMessage clock2],
               input = [],
               isLoading = isLoading (final (handleSendMessage down_service clock1 clock2 navy_state)),
               isConnected = True\<rparr>,
      request = Some \<lparr>message = lit ''What goes with navy blue?'',
                      conversation_history = [toMessage (welcomeMessage clock0)]\<rparr>\<rparr>"
    using trim_navy a
    by (simp add: handleSendMessage_accepted)
       (simp add: navy_state_def down_service_def h)
  with 1 2 show ?thesis using trim_navy a by simp
qed

subsection \<open>The history sent with a request\<close>

text \<open>
  C2, as the code has it. The history of an accepted send is the filter applied to the
  transcript as it stood before the user message was appended: the handler reads the
  \<^verbatim>\<open>messages\<close> of its closure, which the updater does not change. The new user message
  travels in the \<^verbatim>\<open>message\<close> field only; filtering the transcript after the append
  would give the issued history followed by that message.
\<close>

theorem history_is_filter_before_append:
  assumes "trim (input s) \<noteq> []" and "\<not> isLoading s"
  shows
   "request (handleSendMessage post c c' s) =
      Some \<lparr>message = input s, conversation_history = conversationHistory (messages s)\<rparr>
    \<and> snd (handleSendMessage_submit c s) = Some (input s, conversationHistory (messages s))
    \<and> conversationHistory (messages (fst (handleSendMessage_submit c s))) =
        conversationHistory (messages s) @ [\<lparr>role = User, content = input s\<rparr>]
    \<and> chatApi_sendMessage post (input s) (conversationHistory (messages s)) =
        post \<lparr>message = input s, conversation_history = conversationHistory (messages s)\<rparr>
    \<and> final (handleSendMessage post c c' s) =
        snd (handleSendMessage_settle
               (post \<lparr>message = input s,
                      conversation_history = conversationHistory (messages s)\<rparr>)
               c' (fst (handleSendMessage_submit c s)))"
proof -
  have 1: "request (handleSendMessage post c c' s) =
      Some \<lparr>message = input s, conversation_history = conversationHistory (messages s)\<rparr>
    \<and> snd (handleSendMessage_submit c s) = Some (input s, conversationHistory (messages s))
    \<and> conversationHistory (messages (fst (handleSendMessage_submit c s))) =
        conversationHistory (messages s) @ [\<lparr>role = User, content = input s\<rparr>]"
    using assms
    by (simp add: handleSendMessage_accepted submit_accepted conversationHistory_append
          conversationHistory_userMessage)
  have 2: "chatApi_sendMessage post (input s) (conversationHistory (messages s)) =
        post \<lparr>message = input s, conversation_history = conversationHistory (messages s)\<rparr>"
    by (rule chatApi_sendMessage_eq)
  have 3: "final (handleSendMessage post c c' s) =
        snd (handleSendMessage_settle
               (post \<lparr>message = input s,
                      conversation_history = conversationHistory (messages s)\<rparr>)
               c' (fst (handleSendMessage_submit c s)))"
    using assms by (rule handleSendMessage_through_post)
  from 1 2 3 show ?thesis by blast
qed

text \<open>
  The service that answers with the last entry of the history it was sent answers the
  navy-blue question with the welcome text, not with the question.
\<close>

theorem history_is_filter_before_append_witness:
  "trim (input navy_state) \<noteq> [] \<and> \<not> isLoading navy_state \<and>
   request (handleSendMessage last_heard_service clock1 clock2 navy_state) =
     Some \<lparr>message = lit ''What goes with navy blue?'',
           conversation_history = [toMessage (welcomeMessage clock0)]\<rparr> \<and>
   map content (messages (final (handleSendMessage last_heard_service clock1 clock2 navy_state))) =
     [content (welcomeMessage clock0), lit ''What goes with navy blue?'',
      content (welcomeMessage clock0)]"
proof -
  have a: "\<not> isLoading navy_state" by (simp add: navy_state_def)
  have h: "conversationHistory (messages navy_state) = [toMessage (welcomeMessage clock0)]"
    by (simp add: navy_state_def conversationHistory_Cons conversationHistory_Nil
          keepInHistory_welcomeMessage)
  have i: "input navy_state = lit ''What goes with navy blue?''" by (simp add: navy_state_def)
  have m: "messages navy_state = [welcomeMessage clock0]" by (simp add: navy_state_def)
  note r = history_is_filter_before_append [OF trim_navy a, of last_heard_service clock1 clock2]
  from r have 1: "request (handleSendMessage last_heard_service clock1 clock2 navy_state) =
      Some \<lparr>message = input navy_state,
            conversation_history = conversationHistory (messages navy_state)\<rparr>"
    by blast
  from r have 2: "final (handleSendMessage last_heard_service clock1 clock2 navy_state) =
        snd (handleSendMessage_settle
               (last_heard_service \<lparr>message = input navy_state,
                      conversation_history = conversationHistory (messages navy_state)\<rparr>)
               clock2 (fst (handleSendMessage_submit clock1 navy_state)))"
    by blast
  have 3: "messages (fst (handleSendMessage_submit clock1 navy_state)) =
      [welcomeMessage clock0, userMessage (lit ''What goes with navy blue?'') clock1]"
    using trim_navy a by (simp add: submit_accepted i m)
  have 4: "map content (messages (final (handleSendMessage last_heard_service clock1 clock2 navy_state))) =
     [content (welcomeMessage clock0), lit ''What goes with navy blue?'',
      content (welcomeMessage clock0)]"
    by (simp add: 2 h settle_eq 3 last_heard_service_def toMessage_def userMessage_def
          botMessage_def)
  from trim_navy a 1 4 show ?thesis
    by (simp add: h i)
qed

text \<open>
  The history issued for the navy-blue question holds the welcome message only, while the
  filter of the transcript after the append ends with the question itself; the service
  that answers with the last entry of the history it was sent answers with the welcome
  text.
\<close>

theorem history_is_filter_after_append_counterexample:
  "request (handleSendMessage navy_service clock1 clock2 navy_state) =
     Some \<lparr>message = lit ''What goes with navy blue?'',
           conversation_history = [toMessage (welcomeMessage clock0)]\<rparr>
   \<and> conversationHistory (messages (fst (handleSendMessage_submit clock1 navy_state))) =
       [toMessage (welcomeMessage clock0),
        \<lparr>role = User, content = lit ''What goes with navy blue?''\<rparr>]
   \<and> [toMessage (welcomeMessage clock0)] \<noteq>
       conversationHistory (messages (fst (handleSendMessage_submit clock1 navy_state)))
   \<and> map content
        (messages (final (handleSendMessage last_heard_service clock1 clock2 navy_state))) =
       [content (welcomeMessage clock0), lit ''What goes with navy blue?'',
        content (welcomeMessage clock0)]"
proof -
  have a: "\<not> isLoading navy_state" by (simp add: navy_state_def)
  have m: "messages navy_state = [welcomeMessage clock0]" by (simp add: navy_state_def)
  have i: "input navy_state = lit ''What goes with navy blue?''" by (simp add: navy_state_def)
  have h: "conversationHistory [welcomeMessage clock0] = [toMessage (welcomeMessage clock0)]"
    by (simp add: conversationHistory_def keepInHistory_welcomeMessage)
  have 1: "request (handleSendMessage navy_service clock1 clock2 navy_state) =
     Some \<lparr>message = lit ''What goes with navy blue?'',
           conversation_history = [toMessage (welcomeMessage clock0)]\<rparr>"
    using trim_navy a by (simp add: handleSendMessage_accepted m i h)
  have 2: "conversationHistory (messages (fst (handleSendMessage_submit clock1 navy_state))) =
       [toMessage (welcomeMessage clock0),
        \<lparr>role = User, content = lit ''What goes with navy blue?''\<rparr>]"
    using trim_navy a
    by (simp add: submit_accepted m i conversationHistory_Cons conversationHistory_Nil
          keepInHistory_welcomeMessage keepInHistory_userMessage toMessage_userMessage)
  have p: "final (handleSendMessage last_heard_service clock1 clock2 navy_state) =
        snd (handleSendMessage_settle
               (last_heard_service \<lparr>message = input navy_state,
                      conversation_history = conversationHistory (messages navy_state)\<rparr>)
               clock2 (fst (handleSendMessage_submit clock1 navy_state)))"
    using trim_navy a by (rule handleSendMessage_through_post)
  have u: "messages (fst (handleSendMessage_submit clock1 navy_state)) =
      [welcomeMessage clock0, userMessage (lit ''What goes with navy blue?'') clock1]"
    using trim_navy a by (simp add: submit_accepted i m)
  have 3: "map content
        (messages (final (handleSendMessage last_heard_service clock1 clock2 navy_state))) =
       [content (welcomeMessage clock0), lit ''What goes with navy blue?'',
        content (welcomeMessage clock0)]"
    by (simp add: p m h settle_eq u last_heard_service_def toMessage_def userMessage_def
          botMessage_def)
  from 1 2 3 show ?thesis by simp
qed

text \<open>
  C3, as the code has it. The history of an accepted send holds no assistant-role message
  whose content starts with \<^verbatim>\<open>I'm having trouble\<close>; it is the role and content of every
  other message of the transcript, in the transcript's order. A user message is kept
  whatever its content.
\<close>

theorem history_has_no_prefixed_assistant_message:
  assumes "trim (input s) \<noteq> []" and "\<not> isLoading s"
  shows
   "request (handleSendMessage post c c' s) =
      Some \<lparr>message = input s, conversation_history = conversationHistory (messages s)\<rparr>
    \<and> (\<forall>m \<in> set (conversationHistory (messages s)).
          \<not> (role m = Assistant \<and> startsWith (content m) (lit ''I'm having trouble'')))
    \<and> conversationHistory (messages s) =
        filter (\<lambda>m. \<not> (role m = Assistant \<and> startsWith (content m) (lit ''I'm having trouble'')))
          (map toMessage (messages s))
    \<and> subseq (conversationHistory (messages s)) (map toMessage (messages s))
    \<and> final (handleSendMessage post c c' s) =
        snd (handleSendMessage_settle
               (post \<lparr>message = input s,
                      conversation_history =
                        filter (\<lambda>m. \<not> (role m = Assistant \<and>
                                      startsWith (content m) (lit ''I'm having trouble'')))
                          (map toMessage (messages s))\<rparr>)
               c' (fst (handleSendMessage_submit c s)))"
proof -
  have 1: "request (handleSendMessage post c c' s) =
      Some \<lparr>message = input s, conversation_history = conversationHistory (messages s)\<rparr>"
    using assms by (simp add: handleSendMessage_accepted)
  have 3: "conversationHistory (messages s) =
        filter (\<lambda>m. \<not> (role m = Assistant \<and> startsWith (content m) (lit ''I'm having trouble'')))
          (map toMessage (messages s))"
    by (rule conversationHistory_filter_map)
  have 2: "\<forall>m \<in> set (conversationHistory (messages s)).
          \<not> (role m = Assistant \<and> startsWith (content m) (lit ''I'm having trouble''))"
    by (subst 3) simp
  have 4: "subseq (conversationHistory (messages s)) (map toMessage (messages s))"
    by (subst 3) simp
  have "final (handleSendMessage post c c' s) =
        snd (handleSendMessage_settle
               (post \<lparr>message = input s,
                      conversation_history = conversationHistory (messages s)\<rparr>)
               c' (fst (handleSendMessage_submit c s)))"
    using assms by (rule handleSendMessage_through_post)
  then have 5: "final (handleSendMessage post c c' s) =
        snd (handleSendMessage_settle
               (post \<lparr>message = input s,
                      conversation_history =
                        filter (\<lambda>m. \<not> (role m = Assistant \<and>
                                      startsWith (content m) (lit ''I'm having trouble'')))
                          (map toMessage (messages s))\<rparr>)
               c' (fst (handleSendMessage_submit c s)))"
    by (simp only: 3)
  from 1 2 3 4 5 show ?thesis by blast
qed

text \<open>
  After a failed probe the transcript holds the connectivity notice alone. The service
  that refuses an empty history refuses the greeting, and answers the belt question of
  the other scenario, whose history ends with the assistant's earlier reply and holds the
  user's own trouble sentence.
\<close>

theorem history_has_no_prefixed_assistant_message_witness:
  "trim (input offline_state) \<noteq> [] \<and> \<not> isLoading offline_state \<and>
   messages offline_state = [connectionErrorMessage clock0] \<and>
   request (handleSendMessage last_heard_service clock1 clock2 offline_state) =
     Some \<lparr>message = lit ''hi'', conversation_history = []\<rparr> \<and>
   messages (final (handleSendMessage last_heard_service clock1 clock2 offline_state)) =
     [connectionErrorMessage clock0, userMessage (lit ''hi'') clock1, errorMessage clock2] \<and>
   trim (input trouble_state) \<noteq> [] \<and> \<not> isLoading trouble_state \<and>
   map content (messages (final (handleSendMessage last_heard_service clock2 clock3 trouble_state))) =
     [content (welcomeMessage clock0), lit ''I'm having trouble picking shoes'',
      lit ''Try loafers.'', lit ''And a belt?'', lit ''Try loafers.'']"
proof -
  have a: "\<not> isLoading offline_state" by (simp add: offline_state_def)
  have h: "conversationHistory (messages offline_state) = []"
    by (simp add: offline_state_def conversationHistory_Cons conversationHistory_Nil
          not_keepInHistory_connectionErrorMessage)
  have i: "input offline_state = lit ''hi''" by (simp add: offline_state_def)
  have m: "messages offline_state = [connectionErrorMessage clock0]"
    by (simp add: offline_state_def)
  note r = history_has_no_prefixed_assistant_message
    [OF trim_offline a, of last_heard_service clock1 clock2]
  from r have 1: "request (handleSendMessage last_heard_service clock1 clock2 offline_state) =
      Some \<lparr>message = input offline_state,
            conversation_history = conversationHistory (messages offline_state)\<rparr>"
    by blast
  from r have f: "conversationHistory (messages offline_state) =
        filter (\<lambda>m. \<not> (role m = Assistant \<and> startsWith (content m) (lit ''I'm having trouble'')))
          (map toMessage (messages offline_state))"
    by blast
  from r have "final (handleSendMessage last_heard_service clock1 clock2 offline_state) =
        snd (handleSendMessage_settle
               (last_heard_service \<lparr>message = input offline_state,
                      conversation_history =
                        filter (\<lambda>m. \<not> (role m = Assistant \<and>
                                      startsWith (content m) (lit ''I'm having trouble'')))
                          (map toMessage (messages offline_state))\<rparr>)
               clock2 (fst (handleSendMessage_submit clock1 offline_state)))"
    by blast
  then have 2: "final (handleSendMessage last_heard_service clock1 clock2 offline_state) =
        snd (handleSendMessage_settle
               (last_heard_service \<lparr>message = input offline_state, conversation_history = []\<rparr>)
               clock2 (fst (handleSendMessage_submit clock1 offline_state)))"
    by (simp only: f [symmetric] h)
  have 3: "messages (fst (handleSendMessage_submit clock1 offline_state)) =
      [connectionErrorMessage clock0, userMessage (lit ''hi'') clock1]"
    using trim_offline a by (simp add: submit_accepted i m)
  have 4: "messages (final (handleSendMessage last_heard_service clock1 clock2 offline_state)) =
     [connectionErrorMessage clock0, userMessage (lit ''hi'') clock1, errorMessage clock2]"
    by (simp add: 2 settle_eq 3 last_heard_service_def)
  have b: "\<not> isLoading trouble_state" by (simp add: trouble_state_def)
  have h': "conversationHistory (messages trouble_state) =
      [toMessage (welcomeMessage clock0),
       \<lparr>role = User, content = lit ''I'm having trouble picking shoes''\<rparr>,
       \<lparr>role = Assistant, content = lit ''Try loafers.''\<rparr>]"
    by (simp add: trouble_state_def conversationHistory_Cons conversationHistory_Nil
          keepInHistory_welcomeMessage keepInHistory_userMessage keepInHistory_loafers
          toMessage_userMessage toMessage_botMessage)
  note r' = history_has_no_prefixed_assistant_message
    [OF trim_trouble b, of last_heard_service clock2 clock3]
  from r' have f': "conversationHistory (messages trouble_state) =
        filter (\<lambda>m. \<not> (role m = Assistant \<and> startsWith (content m) (lit ''I'm having trouble'')))
          (map toMessage (messages trouble_state))"
    by blast
  from r' have "final (handleSendMessage last_heard_service clock2 clock3 trouble_state) =
        snd (handleSendMessage_settle
               (last_heard_service \<lparr>message = input trouble_state,
                      conversation_history =
                        filter (\<lambda>m. \<not> (role m = Assistant \<and>
                                      startsWith (content m) (lit ''I'm having trouble'')))
                          (map toMessage (messages trouble_state))\<rparr>)
               clock3 (fst (handleSendMessage_submit clock2 trouble_state)))"
    by blast
  then have 5: "final (handleSendMessage last_heard_service clock2 clock3 trouble_state) =
        snd (handleSendMessage_settle
               (last_heard_service \<lparr>message = input trouble_state,
                      conversation_history = conversationHistory (messages trouble_state)\<rparr>)
               clock3 (fst (handleSendMessage_submit clock2 trouble_state)))"
    by (simp only: f' [symmetric])
  have 6: "messages (fst (handleSendMessage_submit clock2 trouble_state)) =
      messages trouble_state @ [userMessage (input trouble_state) clock2]"
    using trim_trouble b by (simp add: submit_accepted)
  have 7: "map content (messages (final (handleSendMessage last_heard_service clock2 clock3 trouble_state))) =
     [content (welcomeMessage clock0), lit ''I'm having trouble picking shoes'',
      lit ''Try loafers.'', lit ''And a belt?'', lit ''Try loafers.'']"
    by (simp add: 5 h' settle_eq 6 last_heard_service_def)
       (simp add: trouble_state_def userMessage_def botMessage_def)
  from 1 have req: "request (handleSendMessage last_heard_service clock1 clock2 offline_state) =
      Some \<lparr>message = lit ''hi'', conversation_history = []\<rparr>"
    by (simp only: h i)
  from trim_offline a m req 4 trim_trouble b 7 show ?thesis
    by blast
qed

text \<open>
  A user message that begins with the same words is sent along in the history: the
  service that answers with the whole history it was sent answers with the user's
  sentence between the welcome text and the earlier reply.
\<close>

theorem history_has_no_prefixed_message_counterexample:
  "snd (handleSendMessage_submit clock2 trouble_state) =
     Some (lit ''And a belt?'',
           [toMessage (welcomeMessage clock0),
            \<lparr>role = User, content = lit ''I'm having trouble picking shoes''\<rparr>,
            \<lparr>role = Assistant, content = lit ''Try loafers.''\<rparr>])
   \<and> startsWith (lit ''I'm having trouble picking shoes'') (lit ''I'm having trouble'')
   \<and> map content
        (messages (final (handleSendMessage recap_service clock2 clock3 trouble_state))) =
       [content (welcomeMessage clock0), lit ''I'm having trouble picking shoes'',
        lit ''Try loafers.'', lit ''And a belt?'',
        content (welcomeMessage clock0) @ lit ''I'm having trouble picking shoes''
          @ lit ''Try loafers.'']"
proof -
  have a: "\<not> isLoading trouble_state" by (simp add: trouble_state_def)
  have 1: "snd (handleSendMessage_submit clock2 trouble_state) =
     Some (lit ''And a belt?'',
           [toMessage (welcomeMessage clock0),
            \<lparr>role = User, content = lit ''I'm having trouble picking shoes''\<rparr>,
            \<lparr>role = Assistant, content = lit ''Try loafers.''\<rparr>])"
    using trim_trouble a
    by (simp add: submit_accepted)
       (simp add: trouble_state_def conversationHistory_Cons conversationHistory_Nil
          keepInHistory_welcomeMessage keepInHistory_userMessage keepInHistory_loafers
          toMessage_userMessage toMessage_botMessage)
  have 2: "startsWith (lit ''I'm having trouble picking shoes'') (lit ''I'm having trouble'')"
    by (simp add: startsWith_def lit_def)
  have h: "conversationHistory (messages trouble_state) =
      [toMessage (welcomeMessage clock0),
       \<lparr>role = User, content = lit ''I'm having trouble picking shoes''\<rparr>,
       \<lparr>role = Assistant, content = lit ''Try loafers.''\<rparr>]"
    by (simp add: trouble_state_def conversationHistory_Cons conversationHistory_Nil
          keepInHistory_welcomeMessage keepInHistory_userMessage keepInHistory_loafers
          toMessage_userMessage toMessage_botMessage)
  have p: "final (handleSendMessage recap_service clock2 clock3 trouble_state) =
        snd (handleSendMessage_settle
               (recap_service \<lparr>message = input trouble_state,
                      conversation_history = conversationHistory (messages trouble_state)\<rparr>)
               clock3 (fst (handleSendMessage_submit clock2 trouble_state)))"
    using trim_trouble a by (rule handleSendMessage_through_post)
  have u: "messages (fst (handleSendMessage_submit clock2 trouble_state)) =
      messages trouble_state @ [userMessage (input trouble_state) clock2]"
    using trim_trouble a by (simp add: submit_accepted)
  have 3: "map content
        (messages (final (handleSendMessage recap_service clock2 clock3 trouble_state))) =
       [content (welcomeMessage clock0), lit ''I'm having trouble picking shoes'',
        lit ''Try loafers.'', lit ''And a belt?'',
        content (welcomeMessage clock0) @ lit ''I'm having trouble picking shoes''
          @ lit ''Try loafers.'']"
    by (simp add: p h settle_eq u recap_service_def toMessage_def)
       (simp add: trouble_state_def userMessage_def botMessage_def)
  from 1 2 3 show ?thesis by simp
qed

text \<open>
  The filter drops exactly the assistant-role messages whose content starts with
  \<^verbatim>\<open>I'm having trouble\<close>, so it keeps the apology of a failed send: as long as only
  typing, submitting and settling of chat calls follow the failure, the apology stays in
  the transcript and every later accepted send hands it to the transport in its history.
\<close>

lemma error_message_kept_while_no_probe_settles:
  assumes "\<forall>g k. HealthSettled g k \<notin> set evs"
    and "s = run (snd (handleSendMessage_settle (Inl e) c t)) evs"
    and "trim (input s) \<noteq> []" and "\<not> isLoading s"
  shows
   "(\<forall>m. keepInHistory m \<longleftrightarrow>
          \<not> (role m = Assistant \<and> startsWith (content m) (lit ''I'm having trouble'')))
    \<and> keepInHistory (errorMessage c)
    \<and> errorMessage c \<in> set (messages s)
    \<and> final (handleSendMessage post c' c'' s) =
        snd (handleSendMessage_settle
               (post \<lparr>message = input s,
                      conversation_history = conversationHistory (messages s)\<rparr>)
               c'' (fst (handleSendMessage_submit c' s)))
    \<and> \<lparr>role = Assistant,
        content = lit ''Sorry, I encountered an error while processing your request. Please try again.''\<rparr>
        \<in> set (conversationHistory (messages s))"
proof -
  have 1: "\<forall>m. keepInHistory m \<longleftrightarrow>
          \<not> (role m = Assistant \<and> startsWith (content m) (lit ''I'm having trouble''))"
    by (simp add: keepInHistory_iff)
  have 2: "keepInHistory (errorMessage c)"
    by (rule keepInHistory_errorMessage)
  have "errorMessage c \<in> set (messages (snd (handleSendMessage_settle (Inl e) c t)))"
    by (simp add: settle_eq)
  moreover have "prefix (messages (snd (handleSendMessage_settle (Inl e) c t))) (messages s)"
    unfolding assms(2) using assms(1) by (rule run_prefix)
  ultimately have 3: "errorMessage c \<in> set (messages s)"
    using set_mono_prefix by blast
  have 4: "final (handleSendMessage post c' c'' s) =
        snd (handleSendMessage_settle
               (post \<lparr>message = input s,
                      conversation_history = conversationHistory (messages s)\<rparr>)
               c'' (fst (handleSendMessage_submit c' s)))"
    using assms(3,4) by (rule handleSendMessage_through_post)
  from 3 2 have "toMessage (errorMessage c) \<in> set (conversationHistory (messages s))"
    by (rule conversationHistory_mem)
  then have 5: "\<lparr>role = Assistant,
        content = lit ''Sorry, I encountered an error while processing your request. Please try again.''\<rparr>
        \<in> set (conversationHistory (messages s))"
    by (simp add: toMessage_errorMessage)
  from 1 2 3 4 5 show ?thesis by blast
qed

text \<open>
  C9. The apology is not in the history of every later accepted send. When the chat call
  of an early send fails while the health probe is still pending, the transcript is the
  user message and the apology; the probe then settles and stores its one-element array
  over both. The next accepted send hands the transport a history that holds the welcome
  message alone, for every service \<open>post\<close>: the apology was not filtered out, it was
  overwritten.
\<close>

theorem late_probe_drops_request_error_message:
  "messages (run App_init failed_early) = [userMessage (lit ''hi'') clock0, errorMessage clock1]
   \<and> messages (run App_init probe_after_failure) = [welcomeMessage clock2]
   \<and> trim (input (run App_init probe_after_failure)) \<noteq> []
   \<and> \<not> isLoading (run App_init probe_after_failure)
   \<and> request (handleSendMessage post clock3 clock3 (run App_init probe_after_failure)) =
       Some \<lparr>message = lit ''hi again'',
             conversation_history = [toMessage (welcomeMessage clock2)]\<rparr>
   \<and> final (handleSendMessage post clock3 clock3 (run App_init probe_after_failure)) =
       snd (handleSendMessage_settle
              (post \<lparr>message = lit ''hi again'',
                     conversation_history = [toMessage (welcomeMessage clock2)]\<rparr>)
              clock3 (fst (handleSendMessage_submit clock3 (run App_init probe_after_failure))))
   \<and> toMessage (errorMessage clock1) \<notin> set [toMessage (welcomeMessage clock2)]"
proof -
  have t: "trim (lit ''hi'') \<noteq> []"
    by (simp add: trim_Nil_iff lit_def isWhiteSpace_def)
  have 1: "messages (run App_init failed_early) =
      [userMessage (lit ''hi'') clock0, errorMessage clock1]"
    using t by (simp add: failed_early_def early_send_def run_Cons run_Nil App_init_def
        handleSendMessage_submit_def settle_eq)
  have s: "run App_init probe_after_failure =
      \<lparr>messages = [welcomeMessage clock2], input = lit ''hi again'',
       isLoading = False, isConnected = True\<rparr>"
    using t by (simp add: probe_after_failure_def failed_early_def early_send_def run_Cons run_Nil
        App_init_def handleSendMessage_submit_def settle_eq health_ok_def checkConnection_ok)
  have 2: "messages (run App_init probe_after_failure) = [welcomeMessage clock2]"
    by (simp add: s)
  have 3: "trim (input (run App_init probe_after_failure)) \<noteq> []"
    by (simp add: s trim_Nil_iff lit_def isWhiteSpace_def)
  have 4: "\<not> isLoading (run App_init probe_after_failure)"
    by (simp add: s)
  have i: "input (run App_init probe_after_failure) = lit ''hi again''"
    by (simp add: s)
  have h: "conversationHistory (messages (run App_init probe_after_failure)) =
      [toMessage (welcomeMessage clock2)]"
    by (simp add: 2 conversationHistory_Cons conversationHistory_Nil keepInHistory_welcomeMessage)
  have 5: "request (handleSendMessage post clock3 clock3 (run App_init probe_after_failure)) =
       Some \<lparr>message = lit ''hi again'',
             conversation_history = [toMessage (welcomeMessage clock2)]\<rparr>"
    using 3 4 by (simp add: handleSendMessage_accepted h i)
  have "final (handleSendMessage post clock3 clock3 (run App_init probe_after_failure)) =
       snd (handleSendMessage_settle
              (post \<lparr>message = input (run App_init probe_after_failure),
                     conversation_history =
                       conversationHistory (messages (run App_init probe_after_failure))\<rparr>)
              clock3 (fst (handleSendMessage_submit clock3 (run App_init probe_after_failure))))"
    using 3 4 by (rule handleSendMessage_through_post)
  then have 6: "final (handleSendMessage post clock3 clock3 (run App_init probe_after_failure)) =
       snd (handleSendMessage_settle
              (post \<lparr>message = lit ''hi again'',
                     conversation_history = [toMessage (welcomeMessage clock2)]\<rparr>)
              clock3 (fst (handleSendMessage_submit clock3 (run App_init probe_after_failure))))"
    by (simp only: h i)
  have 7: "toMessage (errorMessage clock1) \<notin> set [toMessage (welcomeMessage clock2)]"
    by (simp add: toMessage_def errorMessage_def welcomeMessage_def lit_def)
  from 1 2 3 4 5 6 7 show ?thesis by blast
qed

subsection \<open>The health probe\<close>

text \<open>
  C6. When the probe of the mount effect settles and no message has been sent yet, the
  transcript becomes one assistant message: the welcome and connectivity true on success,
  the trouble-connecting notice on failure, with connectivity false as it was from the
  start (the failure path does not write it).
\<close>

theorem checkConnection_seeds_one_assistant_message:
  assumes "\<forall>g k. HealthSettled g k \<notin> set evs"
    and "messages (run App_init evs) = []"
  shows
   "isConnected (checkConnection (Inr h) c (run App_init evs))
    \<and> messages (checkConnection (Inr h) c (run App_init evs)) = [welcomeMessage c]
    \<and> \<not> isConnected (checkConnection (Inl e) c (run App_init evs))
    \<and> messages (checkConnection (Inl e) c (run App_init evs)) = [connectionErrorMessage c]
    \<and> role (welcomeMessage c) = Assistant
    \<and> content (welcomeMessage c) =
        lit ''Hello! I'm your fashion assistant. How can I help you with your style today?''
    \<and> role (connectionErrorMessage c) = Assistant
    \<and> content (connectionErrorMessage c) =
        lit ''I'm having trouble connecting to the fashion assistant service. Some features may be limited.''"
proof -
  from assms(1) have "isConnected (run App_init evs) = isConnected App_init"
    by (rule run_isConnected)
  then have n: "\<not> isConnected (run App_init evs)"
    by (simp add: App_init_def)
  then show ?thesis
    by (simp add: checkConnection_ok checkConnection_failed welcomeMessage_def
          connectionErrorMessage_def)
qed

theorem checkConnection_seeds_one_assistant_message_witness:
  "checkConnection health_ok clock0 App_init =
     \<lparr>messages = [welcomeMessage clock0], input = [], isLoading = False, isConnected = True\<rparr>
   \<and> checkConnection (Inl (HttpError 503)) clock0 App_init =
     \<lparr>messages = [connectionErrorMessage clock0], input = [], isLoading = False,
      isConnected = False\<rparr>"
proof -
  have h: "\<forall>g k. HealthSettled g k \<notin> set []" by simp
  have h': "messages (run App_init []) = []" by (simp add: run_Nil App_init_def)
  note t = checkConnection_seeds_one_assistant_message
    [OF h h', of "\<lparr>status = lit ''healthy''\<rparr>" clock0 "HttpError 503"]
  from t have 1: "isConnected (checkConnection health_ok clock0 App_init)"
    by (simp add: run_Nil health_ok_def)
  from t have 2: "messages (checkConnection health_ok clock0 App_init) = [welcomeMessage clock0]"
    by (simp add: run_Nil health_ok_def)
  from t have 3: "\<not> isConnected (checkConnection (Inl (HttpError 503)) clock0 App_init)"
    by (simp add: run_Nil)
  from t have 4: "messages (checkConnection (Inl (HttpError 503)) clock0 App_init) =
      [connectionErrorMessage clock0]"
    by (simp add: run_Nil)
  have 5: "input (checkConnection g clock0 App_init) = [] \<and>
           \<not> isLoading (checkConnection g clock0 App_init)" for g
    by (cases g) (simp_all add: checkConnection_ok checkConnection_failed App_init_def)
  have eq: "x = \<lparr>messages = messages x, input = input x, isLoading = isLoading x,
                isConnected = isConnected x\<rparr>" for x :: App
    by simp
  show ?thesis
    using 1 2 3 4 5 [of health_ok] 5 [of "Inl (HttpError 503)"]
      eq [of "checkConnection health_ok clock0 App_init"]
      eq [of "checkConnection (Inl (HttpError 503)) clock0 App_init"]
    by simp
qed

text \<open>
  C8. Sending does not look at connectivity: two calls from states that differ in
  \<^verbatim>\<open>isConnected\<close> only issue the same request, throw the same, and leave states that
  again differ in \<^verbatim>\<open>isConnected\<close> only.
\<close>

theorem send_ignores_connectivity:
  "request (handleSendMessage post c c' (s\<lparr>isConnected := b\<rparr>)) =
     request (handleSendMessage post c c' s)
   \<and> thrown (handleSendMessage post c c' (s\<lparr>isConnected := b\<rparr>)) =
     thrown (handleSendMessage post c c' s)
   \<and> final (handleSendMessage post c c' (s\<lparr>isConnected := b\<rparr>)) =
     (final (handleSendMessage post c c' s))\<lparr>isConnected := b\<rparr>
   \<and> messages (final (handleSendMessage post c c' (s\<lparr>isConnected := b\<rparr>))) =
     messages (final (handleSendMessage post c c' s))
   \<and> handleSendMessage_submit c (s\<lparr>isConnected := b\<rparr>) =
       (let (s1, call) = handleSendMessage_submit c s in (s1\<lparr>isConnected := b\<rparr>, call))
   \<and> (\<forall>awaited. handleSendMessage_settle awaited c' (s\<lparr>isConnected := b\<rparr>) =
       (let (t, s1) = handleSendMessage_settle awaited c' s in (t, s1\<lparr>isConnected := b\<rparr>)))"
proof (cases "trim (input s) = [] \<or> isLoading s")
  case True
  then have "trim (input (s\<lparr>isConnected := b\<rparr>)) = [] \<or> isLoading (s\<lparr>isConnected := b\<rparr>)"
    by simp
  then show ?thesis using True
    by (simp add: handleSendMessage_rejected submit_rejected settle_eq)
next
  case False
  then have "trim (input (s\<lparr>isConnected := b\<rparr>)) \<noteq> []" "\<not> isLoading (s\<lparr>isConnected := b\<rparr>)"
    by simp_all
  then show ?thesis using False
    by (simp add: handleSendMessage_accepted submit_accepted settle_eq)
qed

theorem send_ignores_connectivity_witness:
  "request (handleSendMessage navy_service clock1 clock2 (offline_state\<lparr>isConnected := True\<rparr>)) =
     request (handleSendMessage navy_service clock1 clock2 offline_state)
   \<and> messages (final (handleSendMessage navy_service clock1 clock2
         (offline_state\<lparr>isConnected := True\<rparr>))) =
     [connectionErrorMessage clock0, userMessage (lit ''hi'') clock1,
      botMessage \<lparr>response = lit ''Try grey or white.''\<rparr> clock2]"
proof -
  have a: "\<not> isLoading offline_state" by (simp add: offline_state_def)
  note t = send_ignores_connectivity
    [where post = navy_service and c = clock1 and c' = clock2 and s = offline_state and b = True]
  from t have 1: "request (handleSendMessage navy_service clock1 clock2
        (offline_state\<lparr>isConnected := True\<rparr>)) =
     request (handleSendMessage navy_service clock1 clock2 offline_state)"
    by blast
  from t have 2: "messages (final (handleSendMessage navy_service clock1 clock2
        (offline_state\<lparr>isConnected := True\<rparr>))) =
     messages (final (handleSendMessage navy_service clock1 clock2 offline_state))"
    by blast
  have 3: "messages (final (handleSendMessage navy_service clock1 clock2 offline_state)) =
     [connectionErrorMessage clock0, userMessage (lit ''hi'') clock1,
      botMessage \<lparr>response = lit ''Try grey or white.''\<rparr> clock2]"
    using trim_offline a
    by (simp add: handleSendMessage_accepted)
       (simp add: offline_state_def navy_service_def)
  from 1 2 3 show ?thesis by simp
qed

subsection \<open>The transcript as an append-only sequence\<close>

text \<open>
  C7. Every step of a send extends the transcript at its tail (\<open>run_prefix\<close> above), and
  so does the probe when the transcript is still empty. But the probe stores its
  one-element array whatever the transcript holds: when a message is submitted before a
  slow probe settles, the user message is gone once the probe settles, and the reply is
  appended to the welcome message alone.
\<close>

theorem health_probe_after_send_drops_transcript:
  "messages (run App_init early_send) = [userMessage (lit ''hi'') clock0]
   \<and> messages (run App_init late_probe) = [welcomeMessage clock1]
   \<and> \<not> prefix (messages (run App_init early_send)) (messages (run App_init late_probe))
   \<and> messages (run App_init late_reply) =
       [welcomeMessage clock1, botMessage \<lparr>response = lit ''Hello there.''\<rparr> clock2]"
proof -
  have t: "trim (lit ''hi'') \<noteq> []"
    by (simp add: trim_Nil_iff lit_def isWhiteSpace_def)
  have 1: "messages (run App_init early_send) = [userMessage (lit ''hi'') clock0]"
    using t by (simp add: early_send_def run_Cons run_Nil App_init_def handleSendMessage_submit_def)
  have 2: "messages (run App_init late_probe) = [welcomeMessage clock1]"
    using t by (simp add: late_probe_def early_send_def run_Cons run_Nil App_init_def
        handleSendMessage_submit_def health_ok_def checkConnection_ok)
  have 3: "messages (run App_init late_reply) =
       [welcomeMessage clock1, botMessage \<lparr>response = lit ''Hello there.''\<rparr> clock2]"
    using t by (simp add: late_reply_def late_probe_def early_send_def run_Cons run_Nil App_init_def
        handleSendMessage_submit_def health_ok_def checkConnection_ok settle_eq)
  have 4: "userMessage (lit ''hi'') clock0 \<noteq> welcomeMessage clock1"
    by (simp add: userMessage_def welcomeMessage_def)
  from 1 2 3 4 show ?thesis by simp
qed

end
